theory Spec2Isabelle
  imports Main "HOL-Library.Word"
begin

section \<open>The MCPWM peripheral, the serial port and the clock\<close>

text \<open>
  The sketch \<^verbatim>\<open>BTS7960_esp32_controller.ino\<close> drives an IBT-2 (BTS7960) H-bridge from an
  ESP32. Its \<^verbatim>\<open>int\<close> is a 32-bit two's complement integer, modelled as a 32-bit word read
  with \<open>sint\<close> and compared with the signed orders \<open><s\<close> and \<open>\<le>s\<close>.

  A duty cycle is a \<^verbatim>\<open>float\<close> percentage in the sketch. Every duty the sketch computes is
  either the literal \<^verbatim>\<open>0.0\<close> or the conversion of an \<^verbatim>\<open>int\<close>, and the conversion of an
  \<^verbatim>\<open>int\<close> of magnitude below \<open>2 ^ 24\<close> to a single-precision float is exact, so a duty is
  modelled by the integer it denotes.
\<close>

type_synonym cint = "32 word"
type_synonym duty = int

datatype mcpwm_unit_t = MCPWM_UNIT_0 | MCPWM_UNIT_1
datatype mcpwm_timer_t = MCPWM_TIMER_0 | MCPWM_TIMER_1 | MCPWM_TIMER_2
datatype mcpwm_io_signals_t = MCPWM0A | MCPWM0B | MCPWM1A | MCPWM1B | MCPWM2A | MCPWM2B
datatype mcpwm_generator_t = MCPWM_OPR_A | MCPWM_OPR_B
datatype mcpwm_counter_type_t = MCPWM_UP_COUNTER | MCPWM_DOWN_COUNTER | MCPWM_UP_DOWN_COUNTER
datatype mcpwm_duty_type_t = MCPWM_DUTY_MODE_0 | MCPWM_DUTY_MODE_1

record mcpwm_config_t =
  frequency :: nat
  cmpr_a :: duty
  cmpr_b :: duty
  duty_mode :: mcpwm_duty_type_t
  counter_mode :: mcpwm_counter_type_t

text \<open>
  One timer of one MCPWM unit: the configuration it was initialised with (\<open>None\<close> before
  \<^verbatim>\<open>mcpwm_init\<close>) and the duty cycle commanded on each of its two operators.
\<close>

record pwm_timer =
  timer_config :: "mcpwm_config_t option"
  duty_of :: "mcpwm_generator_t \<Rightarrow> duty"

text \<open>
  Everything the sketch acts on: the pin bound to each MCPWM output signal, the timers, the
  arguments of every \<^verbatim>\<open>mcpwm_set_duty\<close> call so far (oldest first), the characters sent to
  the serial port so far, and the milliseconds spent in \<^verbatim>\<open>delay\<close>.
\<close>

record world =
  gpio :: "mcpwm_unit_t \<times> mcpwm_io_signals_t \<Rightarrow> cint option"
  timers :: "mcpwm_unit_t \<times> mcpwm_timer_t \<Rightarrow> pwm_timer"
  duty_writes :: "(mcpwm_unit_t \<times> mcpwm_timer_t \<times> mcpwm_generator_t \<times> duty) list"
  serial :: string
  elapsed_ms :: nat

text \<open>
  The ESP-IDF driver and the Arduino core are libraries outside the repository. Their calls
  are modelled by their documented effect: \<^verbatim>\<open>mcpwm_gpio_init\<close> binds a pin to an output
  signal, \<^verbatim>\<open>mcpwm_init\<close> stores the configuration of a timer and starts both operators at
  the configured duties, \<^verbatim>\<open>mcpwm_set_duty\<close> commands the duty of one operator and leaves
  the other untouched. The sketch ignores the status codes these calls return.
\<close>

definition mcpwm_gpio_init :: "mcpwm_unit_t \<Rightarrow> mcpwm_io_signals_t \<Rightarrow> cint \<Rightarrow> world \<Rightarrow> world" where
  "mcpwm_gpio_init u sig pin w = w\<lparr>gpio := (gpio w)((u, sig) \<mapsto> pin)\<rparr>"

definition mcpwm_init :: "mcpwm_unit_t \<Rightarrow> mcpwm_timer_t \<Rightarrow> mcpwm_config_t \<Rightarrow> world \<Rightarrow> world" where
  "mcpwm_init u t conf w =
     w\<lparr>timers := (timers w)((u, t) :=
          \<lparr>timer_config = Some conf,
           duty_of = (\<lambda>g. case g of MCPWM_OPR_A \<Rightarrow> cmpr_a conf | MCPWM_OPR_B \<Rightarrow> cmpr_b conf)\<rparr>)\<rparr>"

definition mcpwm_set_duty ::
  "mcpwm_unit_t \<Rightarrow> mcpwm_timer_t \<Rightarrow> mcpwm_generator_t \<Rightarrow> duty \<Rightarrow> world \<Rightarrow> world" where
  "mcpwm_set_duty u t g d w =
     w\<lparr>timers := (timers w)((u, t) := (timers w (u, t))\<lparr>duty_of := (duty_of (timers w (u, t)))(g := d)\<rparr>),
       duty_writes := duty_writes w @ [(u, t, g, d)]\<rparr>"

text \<open>
  \<^verbatim>\<open>Print::printNumber\<close> in base 10: the digits of an unsigned number, most significant
  first. \<^verbatim>\<open>Serial.print(int)\<close> writes a minus sign and the magnitude for a negative value.
  \<^verbatim>\<open>Serial.println\<close> ends the line with carriage return and line feed.
\<close>

fun printNumber :: "nat \<Rightarrow> string" where
  "printNumber n =
     (if n < 10 then [''0123456789'' ! n]
      else printNumber (n div 10) @ [''0123456789'' ! (n mod 10)])"

definition CRLF :: string where
  "CRLF = [CHR 0x0D, CHR 0x0A]"

definition Serial_print :: "string \<Rightarrow> world \<Rightarrow> world" where
  "Serial_print s w = w\<lparr>serial := serial w @ s\<rparr>"

definition Serial_print_int :: "cint \<Rightarrow> world \<Rightarrow> world" where
  "Serial_print_int n w =
     (if sint n < 0 then Serial_print (CHR ''-'' # printNumber (nat (- sint n))) w
      else Serial_print (printNumber (nat (sint n))) w)"

definition Serial_println :: "string \<Rightarrow> world \<Rightarrow> world" where
  "Serial_println s w = Serial_print (s @ CRLF) w"

definition delay :: "nat \<Rightarrow> world \<Rightarrow> world" where
  "delay ms w = w\<lparr>elapsed_ms := elapsed_ms w + ms\<rparr>"

text \<open>\<^verbatim>\<open>abs\<close> on an \<^verbatim>\<open>int\<close>, as the Arduino macro \<^verbatim>\<open>((x)>0?(x):-(x))\<close> computes it.\<close>

definition abs_cint :: "cint \<Rightarrow> cint" where
  "abs_cint x = (if 0 <s x then x else - x)"

section \<open>The class MyMotor\<close>

record MyMotor =
  forwardPin :: cint
  reversePin :: cint

text \<open>
  The constructor (lines 67 to 88): it stores the two pins, binds them to the outputs
  MCPWM0A and MCPWM0B of unit 0, and initialises timer 0 of unit 0.
\<close>

definition MyMotor_new :: "cint \<Rightarrow> cint \<Rightarrow> world \<Rightarrow> MyMotor \<times> world" where
  "MyMotor_new forwardPin' reversePin' w =
     (let this = \<lparr>forwardPin = forwardPin', reversePin = reversePin'\<rparr>;
          w1 = mcpwm_gpio_init MCPWM_UNIT_0 MCPWM0A forwardPin' w;
          w2 = mcpwm_gpio_init MCPWM_UNIT_0 MCPWM0B reversePin' w1;
          pwm_config = \<lparr>frequency = 1000, cmpr_a = 0, cmpr_b = 0,
                        duty_mode = MCPWM_DUTY_MODE_0, counter_mode = MCPWM_UP_COUNTER\<rparr>;
          w3 = mcpwm_init MCPWM_UNIT_0 MCPWM_TIMER_0 pwm_config w2
      in (this, w3))"

text \<open>
  \<^verbatim>\<open>setSpeed\<close> (lines 101 to 140): the two clamping statements, the magnitude, and the
  three branches, each with its two duty writes followed by its prints. The method
  neither reads nor writes a field of the object.
\<close>

definition setSpeed :: "MyMotor \<Rightarrow> cint \<Rightarrow> world \<Rightarrow> world" where
  "setSpeed this speed0 w =
     (let speed1 = (if speed0 <s - 100 then - 100 else speed0);
          speed = (if 100 <s speed1 then 100 else speed1);
          dutyCycle = sint (abs_cint speed)
      in if 0 <s speed then
           (let w1 = mcpwm_set_duty MCPWM_UNIT_0 MCPWM_TIMER_0 MCPWM_OPR_A dutyCycle w;
                w2 = mcpwm_set_duty MCPWM_UNIT_0 MCPWM_TIMER_0 MCPWM_OPR_B 0 w1;
                w3 = Serial_print ''Forward Speed: '' w2;
                w4 = Serial_print_int speed w3
            in Serial_println ''%'' w4)
         else if speed <s 0 then
           (let w1 = mcpwm_set_duty MCPWM_UNIT_0 MCPWM_TIMER_0 MCPWM_OPR_A 0 w;
                w2 = mcpwm_set_duty MCPWM_UNIT_0 MCPWM_TIMER_0 MCPWM_OPR_B dutyCycle w1;
                w3 = Serial_print ''Reverse Speed: '' w2;
                w4 = Serial_print_int speed w3
            in Serial_println ''%'' w4)
         else
           (let w1 = mcpwm_set_duty MCPWM_UNIT_0 MCPWM_TIMER_0 MCPWM_OPR_A 0 w;
                w2 = mcpwm_set_duty MCPWM_UNIT_0 MCPWM_TIMER_0 MCPWM_OPR_B 0 w1
            in Serial_println ''Motor Stopped'' w2))"

text \<open>
  The demonstration routine (lines 183 to 223) is four counting loops, each calling
  \<^verbatim>\<open>setSpeed\<close> and then waiting 500 ms, with a wait of 2000 ms after each loop. The loop
  counter is an \<^verbatim>\<open>int\<close>; every loop ends because the counter moves towards its bound
  by 10 on each round and stays far from the ends of the 32-bit range.
\<close>

function forward_ramp_up :: "MyMotor \<Rightarrow> cint \<Rightarrow> world \<Rightarrow> world" where
  "forward_ramp_up motor speed w =
     (if speed \<le>s 100
      then forward_ramp_up motor (speed + 10) (delay 500 (setSpeed motor speed w))
      else w)"
  by pat_completeness auto
termination
proof (relation "measure (\<lambda>(motor, speed, w). nat (101 - sint speed))", goal_cases)
  case 1
  show ?case by simp
next
  case (2 motor speed w)
  with sint_ge [of speed] show ?case
    by (simp add: word_sle_eq sint_word_ariths signed_take_bit_int_eq_self)
qed

function forward_ramp_down :: "MyMotor \<Rightarrow> cint \<Rightarrow> world \<Rightarrow> world" where
  "forward_ramp_down motor speed w =
     (if 0 \<le>s speed
      then forward_ramp_down motor (speed - 10) (delay 500 (setSpeed motor speed w))
      else w)"
  by pat_completeness auto
termination
proof (relation "measure (\<lambda>(motor, speed, w). nat (sint speed + 1))", goal_cases)
  case 1
  show ?case by simp
next
  case (2 motor speed w)
  with sint_lt [of speed] show ?case
    by (simp add: word_sle_eq sint_word_ariths signed_take_bit_int_eq_self)
qed

function reverse_ramp_up :: "MyMotor \<Rightarrow> cint \<Rightarrow> world \<Rightarrow> world" where
  "reverse_ramp_up motor speed w =
     (if - 100 \<le>s speed
      then reverse_ramp_up motor (speed - 10) (delay 500 (setSpeed motor speed w))
      else w)"
  by pat_completeness auto
termination
proof (relation "measure (\<lambda>(motor, speed, w). nat (sint speed + 101))", goal_cases)
  case 1
  show ?case by simp
next
  case (2 motor speed w)
  with sint_lt [of speed] show ?case
    by (simp add: word_sle_eq sint_word_ariths signed_take_bit_int_eq_self)
qed

function reverse_ramp_down :: "MyMotor \<Rightarrow> cint \<Rightarrow> world \<Rightarrow> world" where
  "reverse_ramp_down motor speed w =
     (if speed \<le>s 0
      then reverse_ramp_down motor (speed + 10) (delay 500 (setSpeed motor speed w))
      else w)"
  by pat_completeness auto
termination
proof (relation "measure (\<lambda>(motor, speed, w). nat (1 - sint speed))", goal_cases)
  case 1
  show ?case by simp
next
  case (2 motor speed w)
  with sint_ge [of speed] show ?case
    by (simp add: word_sle_eq sint_word_ariths signed_take_bit_int_eq_self)
qed

definition loop :: "MyMotor \<Rightarrow> world \<Rightarrow> world" where
  "loop motor w =
     (let w1 = forward_ramp_up motor 0 w;
          w2 = delay 2000 w1;
          w3 = forward_ramp_down motor 100 w2;
          w4 = delay 2000 w3;
          w5 = reverse_ramp_up motor 0 w4;
          w6 = delay 2000 w5;
          w7 = reverse_ramp_down motor (- 100) w6
      in delay 2000 w7)"

declare forward_ramp_up.simps [simp del] forward_ramp_down.simps [simp del]
  reverse_ramp_up.simps [simp del] reverse_ramp_down.simps [simp del]
  printNumber.simps [simp del]

section \<open>What is observed of the bridge\<close>

text \<open>
  The two channels of the bridge: the forward input RPWM is wired to MCPWM0A, the reverse
  input LPWM to MCPWM0B, both generated by timer 0 of unit 0.
\<close>

definition forward_duty :: "world \<Rightarrow> duty" where
  "forward_duty w = duty_of (timers w (MCPWM_UNIT_0, MCPWM_TIMER_0)) MCPWM_OPR_A"

definition reverse_duty :: "world \<Rightarrow> duty" where
  "reverse_duty w = duty_of (timers w (MCPWM_UNIT_0, MCPWM_TIMER_0)) MCPWM_OPR_B"

text \<open>
  The sketch keeps no direction variable. The direction is read off the channels as the
  class comment and the README give it: PWM on RPWM alone is forward, PWM on LPWM alone
  is reverse, both at 0 is off. Both channels driven at once is none of the three.
\<close>

datatype direction = Forward | Reverse | Stopped

definition current_direction :: "world \<Rightarrow> direction option" where
  "current_direction w =
     (if 0 < forward_duty w \<and> reverse_duty w = 0 then Some Forward
      else if forward_duty w = 0 \<and> 0 < reverse_duty w then Some Reverse
      else if forward_duty w = 0 \<and> reverse_duty w = 0 then Some Stopped
      else None)"

definition mutual_exclusion :: "world \<Rightarrow> bool" where
  "mutual_exclusion w = (forward_duty w = 0 \<or> reverse_duty w = 0)"

text \<open>
  A board out of reset, and the global instance \<^verbatim>\<open>MyMotor motor(4, 15)\<close> of line 153
  constructed on it.
\<close>

definition power_on :: world where
  "power_on = \<lparr>gpio = (\<lambda>_. None),
               timers = (\<lambda>_. \<lparr>timer_config = None, duty_of = (\<lambda>_. 0)\<rparr>),
               duty_writes = [], serial = [], elapsed_ms = 0\<rparr>"

definition motor :: MyMotor where
  "motor = fst (MyMotor_new 4 15 power_on)"

definition booted :: world where
  "booted = snd (MyMotor_new 4 15 power_on)"

section \<open>Arithmetic on the clamped speed\<close>

lemma sint_neg_small:
  fixes x :: cint
  assumes "- 100 \<le> sint x" and "sint x \<le> 100"
  shows "sint (- x) = - sint x"
proof -
  have "sint (- x) = signed_take_bit 31 (- sint x)"
    by (simp add: sint_word_ariths)
  also have "\<dots> = - sint x"
    using assms by (simp add: signed_take_bit_int_eq_self)
  finally show ?thesis .
qed

lemmas hw_defs = mcpwm_set_duty_def Serial_print_def Serial_print_int_def Serial_println_def

section \<open>The effect of one call of setSpeed\<close>

text \<open>
  Each component of the world after \<^verbatim>\<open>setSpeed\<close>, in terms of the clamped speed
  \<open>max (- 100) (min 100 (sint s))\<close>.
\<close>

lemma forward_duty_setSpeed:
  "forward_duty (setSpeed m s w) = max (max (- 100) (min 100 (sint s))) 0"
  by (simp add: setSpeed_def Let_def forward_duty_def hw_defs word_sless_alt abs_cint_def
      sint_neg_small)

lemma reverse_duty_setSpeed:
  "reverse_duty (setSpeed m s w) = max (- max (- 100) (min 100 (sint s))) 0"
  by (simp add: setSpeed_def Let_def reverse_duty_def hw_defs word_sless_alt abs_cint_def
      sint_neg_small)

lemma timers_setSpeed:
  "timers (setSpeed m s w) = (timers w)((MCPWM_UNIT_0, MCPWM_TIMER_0) :=
     (timers w (MCPWM_UNIT_0, MCPWM_TIMER_0))
       \<lparr>duty_of := (duty_of (timers w (MCPWM_UNIT_0, MCPWM_TIMER_0)))
          (MCPWM_OPR_A := max (max (- 100) (min 100 (sint s))) 0,
           MCPWM_OPR_B := max (- max (- 100) (min 100 (sint s))) 0)\<rparr>)"
  by (simp add: setSpeed_def Let_def hw_defs word_sless_alt abs_cint_def sint_neg_small)

lemma duty_writes_setSpeed:
  "duty_writes (setSpeed m s w) = duty_writes w @
     [(MCPWM_UNIT_0, MCPWM_TIMER_0, MCPWM_OPR_A, max (max (- 100) (min 100 (sint s))) 0),
      (MCPWM_UNIT_0, MCPWM_TIMER_0, MCPWM_OPR_B, max (- max (- 100) (min 100 (sint s))) 0)]"
  by (simp add: setSpeed_def Let_def hw_defs word_sless_alt abs_cint_def sint_neg_small)

lemma serial_setSpeed:
  "serial (setSpeed m s w) = serial w @
     (let c = max (- 100) (min 100 (sint s))
      in if 0 < c then ''Forward Speed: '' @ printNumber (nat c) @ ''%''
         else if c < 0 then ''Reverse Speed: -'' @ printNumber (nat (- c)) @ ''%''
         else ''Motor Stopped'') @ CRLF"
  by (simp add: setSpeed_def Let_def hw_defs word_sless_alt)

lemma elapsed_ms_setSpeed: "elapsed_ms (setSpeed m s w) = elapsed_ms w"
  by (simp add: setSpeed_def Let_def hw_defs)

lemma gpio_setSpeed: "gpio (setSpeed m s w) = gpio w"
  by (simp add: setSpeed_def Let_def hw_defs)

lemma current_direction_setSpeed:
  "current_direction (setSpeed m s w) =
     Some (if 0 <s s then Forward else if s <s 0 then Reverse else Stopped)"
  by (simp add: current_direction_def forward_duty_setSpeed reverse_duty_setSpeed word_sless_alt)

lemma mutual_exclusion_setSpeed: "mutual_exclusion (setSpeed m s w)"
  by (auto simp add: mutual_exclusion_def forward_duty_setSpeed reverse_duty_setSpeed)

subsection \<open>The constructor and the board out of reset\<close>

lemma forward_duty_new: "forward_duty (snd (MyMotor_new fp rp w)) = 0"
  by (simp add: MyMotor_new_def Let_def forward_duty_def mcpwm_init_def mcpwm_gpio_init_def)

lemma reverse_duty_new: "reverse_duty (snd (MyMotor_new fp rp w)) = 0"
  by (simp add: MyMotor_new_def Let_def reverse_duty_def mcpwm_init_def mcpwm_gpio_init_def)

lemma duty_writes_booted: "duty_writes booted = []"
  by (simp add: booted_def MyMotor_new_def Let_def mcpwm_init_def mcpwm_gpio_init_def
      power_on_def)

lemma serial_booted: "serial booted = []"
  by (simp add: booted_def MyMotor_new_def Let_def mcpwm_init_def mcpwm_gpio_init_def
      power_on_def)

subsection \<open>Decimal digits\<close>

lemma set_printNumber: "set (printNumber n) \<subseteq> set ''0123456789''"
proof (induction n rule: printNumber.induct)
  case (1 n)
  show ?case
  proof (cases "n < 10")
    case True
    then have "''0123456789'' ! n \<in> set ''0123456789''"
      by (intro nth_mem) simp
    with True show ?thesis
      by (subst printNumber.simps) simp
  next
    case False
    have "n mod 10 < 10" by simp
    then have "''0123456789'' ! (n mod 10) \<in> set ''0123456789''"
      by (intro nth_mem) simp
    with False "1.IH" show ?thesis
      by (subst printNumber.simps) simp
  qed
qed

lemma printNumber_no_newline:
  "CHR 0x0D \<notin> set (printNumber n) \<and> CHR 0x0A \<notin> set (printNumber n)"
  using set_printNumber [of n] by auto

lemma printNumber_not_Nil: "printNumber n \<noteq> []"
  by (subst printNumber.simps) simp

lemma digit_inj:
  assumes "a < 10" and "b < 10" and "''0123456789'' ! a = ''0123456789'' ! b"
  shows "a = b"
proof -
  have "distinct ''0123456789''" by simp
  then show ?thesis
    using assms by (simp add: nth_eq_iff_index_eq)
qed

lemma printNumber_inj: "printNumber a = printNumber b \<Longrightarrow> a = b"
proof (induction a arbitrary: b rule: printNumber.induct)
  case (1 a)
  show ?case
  proof (cases "a < 10")
    case a: True
    show ?thesis
    proof (cases "b < 10")
      case True
      with a "1.prems" show ?thesis
        by (simp add: printNumber.simps [of a] printNumber.simps [of b] digit_inj)
    next
      case False
      with a "1.prems" printNumber_not_Nil [of "b div 10"] show ?thesis
        by (simp add: printNumber.simps [of a] printNumber.simps [of b])
    qed
  next
    case a: False
    show ?thesis
    proof (cases "b < 10")
      case True
      with a "1.prems" printNumber_not_Nil [of "a div 10"] show ?thesis
        by (simp add: printNumber.simps [of a] printNumber.simps [of b])
    next
      case False
      with a "1.prems" have eq: "printNumber (a div 10) = printNumber (b div 10)"
        and d: "''0123456789'' ! (a mod 10) = ''0123456789'' ! (b mod 10)"
        by (simp_all add: printNumber.simps [of a] printNumber.simps [of b])
      from "1.IH" [OF a eq] have q: "a div 10 = b div 10" .
      have r: "a mod 10 = b mod 10"
        using d by (intro digit_inj) simp_all
      show ?thesis
        using q r by (metis div_mult_mod_eq)
    qed
  qed
qed

section \<open>The speed to duty mapping\<close>

text \<open>
  C1. For every speed \<open>s\<close> in \<open>[-100, 100]\<close>, after \<^verbatim>\<open>setSpeed(s)\<close> the duty of the
  forward channel is \<open>max s 0\<close> and the duty of the reverse channel is \<open>max (- s) 0\<close>; both
  are zero when \<open>s = 0\<close>, and otherwise exactly one of the two is nonzero. The state before
  the call is arbitrary.
\<close>

theorem setSpeed_duty_in_range:
  assumes "- 100 \<le> sint s" and "sint s \<le> 100"
  shows "forward_duty (setSpeed m s w) = max (sint s) 0
       \<and> reverse_duty (setSpeed m s w) = max (- sint s) 0
       \<and> (if s = 0 then forward_duty (setSpeed m s w) = 0 \<and> reverse_duty (setSpeed m s w) = 0
          else (forward_duty (setSpeed m s w) \<noteq> 0) \<noteq> (reverse_duty (setSpeed m s w) \<noteq> 0))"
proof -
  have c: "max (- 100) (min 100 (sint s)) = sint s"
    using assms by simp
  have z: "s = 0 \<longleftrightarrow> sint s = 0"
    by (simp add: signed_eq_0_iff)
  show ?thesis
    unfolding forward_duty_setSpeed reverse_duty_setSpeed c z by auto
qed

theorem setSpeed_duty_in_range_witness:
  "- 100 \<le> sint (37 :: cint) \<and> sint (37 :: cint) \<le> 100
   \<and> forward_duty (setSpeed motor 37 booted) = 37
   \<and> reverse_duty (setSpeed motor 37 booted) = 0
   \<and> - 100 \<le> sint (- 37 :: cint) \<and> sint (- 37 :: cint) \<le> 100
   \<and> forward_duty (setSpeed motor (- 37) booted) = 0
   \<and> reverse_duty (setSpeed motor (- 37) booted) = 37"
  using setSpeed_duty_in_range [of 37 motor booted]
    setSpeed_duty_in_range [of "- 37" motor booted]
  by simp

text \<open>
  C2. A speed outside \<open>[-100, 100]\<close> is saturated, not rejected: above 100 the call does
  exactly what \<^verbatim>\<open>setSpeed(100)\<close> does, below -100 exactly what \<^verbatim>\<open>setSpeed(-100)\<close> does, so
  the value the duty is computed from is 100 or -100. The method returns a world and
  nothing else: it has no error result, and what it prints is the ordinary status line
  of the saturated speed.
\<close>

theorem setSpeed_saturates:
  "(100 < sint s \<longrightarrow>
      setSpeed m s w = setSpeed m 100 w
      \<and> forward_duty (setSpeed m s w) = 100 \<and> reverse_duty (setSpeed m s w) = 0
      \<and> serial (setSpeed m s w) = serial w @ ''Forward Speed: 100%'' @ CRLF)
   \<and> (sint s < - 100 \<longrightarrow>
      setSpeed m s w = setSpeed m (- 100) w
      \<and> forward_duty (setSpeed m s w) = 0 \<and> reverse_duty (setSpeed m s w) = 100
      \<and> serial (setSpeed m s w) = serial w @ ''Reverse Speed: -100%'' @ CRLF)"
proof -
  have hi: "setSpeed m s w = setSpeed m 100 w" if "100 < sint s"
    using that by (simp add: setSpeed_def Let_def word_sless_alt)
  have lo: "setSpeed m s w = setSpeed m (- 100) w" if "sint s < - 100"
    using that by (simp add: setSpeed_def Let_def word_sless_alt)
  have digits: "printNumber 100 = ''100''"
    by (simp add: printNumber.simps)
  show ?thesis
    using hi lo
    by (simp add: forward_duty_setSpeed reverse_duty_setSpeed serial_setSpeed digits)
qed

theorem setSpeed_saturates_witness:
  "100 < sint (150 :: cint) \<and> sint (- 150 :: cint) < - 100
   \<and> setSpeed motor 150 booted = setSpeed motor 100 booted
   \<and> forward_duty (setSpeed motor 150 booted) = 100
   \<and> reverse_duty (setSpeed motor 150 booted) = 0
   \<and> setSpeed motor (- 150) booted = setSpeed motor (- 100) booted
   \<and> forward_duty (setSpeed motor (- 150) booted) = 0
   \<and> reverse_duty (setSpeed motor (- 150) booted) = 100"
proof -
  have hi: "100 < sint (150 :: cint)" and lo: "sint (- 150 :: cint) < - 100"
    by simp_all
  show ?thesis
    using hi lo setSpeed_saturates [of 150 motor booted]
      setSpeed_saturates [of "- 150" motor booted]
    by blast
qed

section \<open>Mutual exclusion of the two channels\<close>

text \<open>
  The two duty writes of one call are separate steps. A forward call issued while the
  motor runs in reverse raises the forward duty before it clears the reverse duty, so
  the state between its two writes has both channels driven; a reverse call clears the
  forward duty first.
\<close>

lemma forward_write_precedes_reverse_clear:
  "let w0 = setSpeed m (- 50) w;
       w1 = mcpwm_set_duty MCPWM_UNIT_0 MCPWM_TIMER_0 MCPWM_OPR_A 50 w0
   in forward_duty w1 = 50 \<and> reverse_duty w1 = 50 \<and> \<not> mutual_exclusion w1"
  using reverse_duty_setSpeed [of m "- 50" w]
  by (simp add: Let_def mutual_exclusion_def forward_duty_def reverse_duty_def
      mcpwm_set_duty_def)

text \<open>
  C3. At most one of the two channels has a nonzero duty in the state the constructor
  leaves, in the state any call of \<^verbatim>\<open>setSpeed\<close> leaves (whatever the state before the
  call), and so in every state reached from the constructor by a sequence of calls. The
  invariant is one of the states between calls.
\<close>

theorem mutual_exclusion_invariant:
  "mutual_exclusion (snd (MyMotor_new fp rp w0))
   \<and> mutual_exclusion (setSpeed m s w)
   \<and> mutual_exclusion (foldl (\<lambda>w s. setSpeed m s w) (snd (MyMotor_new fp rp w0)) calls)"
proof -
  have init: "mutual_exclusion (snd (MyMotor_new fp rp w0))"
    by (simp add: mutual_exclusion_def forward_duty_new)
  have run: "mutual_exclusion (foldl (\<lambda>w s. setSpeed m s w) (snd (MyMotor_new fp rp w0)) calls)"
  proof (cases calls rule: rev_cases)
    case Nil
    then show ?thesis using init by simp
  next
    case (snoc ss s')
    then show ?thesis by (simp add: mutual_exclusion_setSpeed)
  qed
  show ?thesis
    using init run mutual_exclusion_setSpeed by simp
qed

theorem mutual_exclusion_invariant_witness:
  "mutual_exclusion booted
   \<and> mutual_exclusion (setSpeed motor 50 (setSpeed motor (- 50) booted))
   \<and> mutual_exclusion (foldl (\<lambda>w s. setSpeed motor s w) booted [50, - 50, 0, 150])"
  using mutual_exclusion_invariant
    [of 4 15 power_on motor 50 "setSpeed motor (- 50) booted" "[50, - 50, 0, 150]"]
  by (simp add: booted_def)

section \<open>Idempotence\<close>

text \<open>
  C4. For every speed and every starting state, a second call of \<^verbatim>\<open>setSpeed\<close> with the
  same speed leaves the PWM timers, and with them the duties of the forward and the
  reverse channel, as the first call left them.
\<close>

theorem setSpeed_idempotent:
  "timers (setSpeed m s (setSpeed m s w)) = timers (setSpeed m s w)
   \<and> forward_duty (setSpeed m s (setSpeed m s w)) = forward_duty (setSpeed m s w)
   \<and> reverse_duty (setSpeed m s (setSpeed m s w)) = reverse_duty (setSpeed m s w)"
  by (simp add: timers_setSpeed forward_duty_setSpeed reverse_duty_setSpeed)

theorem setSpeed_idempotent_witness:
  "timers (setSpeed motor (- 37) (setSpeed motor (- 37) booted)) = timers (setSpeed motor (- 37) booted)
   \<and> forward_duty (setSpeed motor (- 37) (setSpeed motor (- 37) booted)) =
       forward_duty (setSpeed motor (- 37) booted)
   \<and> reverse_duty (setSpeed motor (- 37) (setSpeed motor (- 37) booted)) =
       reverse_duty (setSpeed motor (- 37) booted)"
  using setSpeed_idempotent [of motor "- 37" booted] by simp

section \<open>The demonstration routine\<close>

lemma duty_writes_delay: "duty_writes (delay ms w) = duty_writes w"
  by (simp add: delay_def)

lemma elapsed_ms_delay: "elapsed_ms (delay ms w) = elapsed_ms w + ms"
  by (simp add: delay_def)

text \<open>Each loop runs eleven rounds, one for each multiple of 10 between its ends.\<close>

lemma forward_ramp_up_unfold:
  "forward_ramp_up m 0 w =
     foldl (\<lambda>w s. delay 500 (setSpeed m s w)) w [0, 10, 20, 30, 40, 50, 60, 70, 80, 90, 100]"
  by (simp add: forward_ramp_up.simps word_sle_eq)

lemma forward_ramp_down_unfold:
  "forward_ramp_down m 100 w =
     foldl (\<lambda>w s. delay 500 (setSpeed m s w)) w [100, 90, 80, 70, 60, 50, 40, 30, 20, 10, 0]"
  by (simp add: forward_ramp_down.simps word_sle_eq)

lemma reverse_ramp_up_unfold:
  "reverse_ramp_up m 0 w =
     foldl (\<lambda>w s. delay 500 (setSpeed m s w)) w
       [0, - 10, - 20, - 30, - 40, - 50, - 60, - 70, - 80, - 90, - 100]"
  by (simp add: reverse_ramp_up.simps word_sle_eq)

lemma reverse_ramp_down_unfold:
  "reverse_ramp_down m (- 100) w =
     foldl (\<lambda>w s. delay 500 (setSpeed m s w)) w
       [- 100, - 90, - 80, - 70, - 60, - 50, - 40, - 30, - 20, - 10, 0]"
  by (simp add: reverse_ramp_down.simps word_sle_eq)

lemmas ramp_unfold = forward_ramp_up_unfold forward_ramp_down_unfold
  reverse_ramp_up_unfold reverse_ramp_down_unfold

text \<open>One pass of the routine waits 44 times 500 ms and 4 times 2000 ms.\<close>

lemma elapsed_ms_loop: "elapsed_ms (loop m w) = elapsed_ms w + 30000"
  by (simp add: loop_def Let_def ramp_unfold elapsed_ms_delay elapsed_ms_setSpeed)

text \<open>
  C5. One pass of \<^verbatim>\<open>loop\<close> returns, and the duty writes it makes are, in order: the
  forward channel at 0, 10, ..., 100 and then at 100, 90, ..., 0, each followed by the
  reverse channel at 0; then the forward channel at 0 followed by the reverse channel at
  0, 10, ..., 100 and then at 100, 90, ..., 0. Consecutive values of a ramp differ by 10.
\<close>

theorem loop_duty_sequence:
  "let up = [0, 10, 20, 30, 40, 50, 60, 70, 80, 90, 100]; down = rev up
   in duty_writes (loop m w) = duty_writes w
        @ concat (map (\<lambda>d. [(MCPWM_UNIT_0, MCPWM_TIMER_0, MCPWM_OPR_A, d),
                              (MCPWM_UNIT_0, MCPWM_TIMER_0, MCPWM_OPR_B, 0)]) (up @ down))
        @ concat (map (\<lambda>d. [(MCPWM_UNIT_0, MCPWM_TIMER_0, MCPWM_OPR_A, 0),
                              (MCPWM_UNIT_0, MCPWM_TIMER_0, MCPWM_OPR_B, d)]) (up @ down))"
  by (simp add: loop_def Let_def ramp_unfold duty_writes_delay duty_writes_setSpeed)

theorem loop_duty_sequence_witness:
  "map (\<lambda>(u, t, g, d). d)
     (filter (\<lambda>(u, t, g, d). g = MCPWM_OPR_A) (duty_writes (loop motor booted))) =
     [0, 10, 20, 30, 40, 50, 60, 70, 80, 90, 100, 100, 90, 80, 70, 60, 50, 40, 30, 20, 10, 0,
      0, 0, 0, 0, 0, 0, 0, 0, 0, 0, 0, 0, 0, 0, 0, 0, 0, 0, 0, 0, 0, 0]
   \<and> map (\<lambda>(u, t, g, d). d)
     (filter (\<lambda>(u, t, g, d). g = MCPWM_OPR_B) (duty_writes (loop motor booted))) =
     [0, 0, 0, 0, 0, 0, 0, 0, 0, 0, 0, 0, 0, 0, 0, 0, 0, 0, 0, 0, 0, 0,
      0, 10, 20, 30, 40, 50, 60, 70, 80, 90, 100, 100, 90, 80, 70, 60, 50, 40, 30, 20, 10, 0]"
  using loop_duty_sequence [of motor booted]
  by (simp add: Let_def duty_writes_booted)

section \<open>Direction\<close>

text \<open>
  C6. The direction is always one of Forward, Reverse and Stopped: it is Stopped in the
  state the constructor leaves; after a call of \<^verbatim>\<open>setSpeed\<close> from any state it is Forward,
  Reverse or Stopped as the argument is positive, negative or zero; and after any
  nonempty sequence of calls it is given by the sign of the argument of the last call
  alone.
\<close>

theorem direction_by_sign_of_last_call:
  "current_direction (snd (MyMotor_new fp rp w0)) = Some Stopped
   \<and> current_direction (setSpeed m s w) =
       Some (if 0 <s s then Forward else if s <s 0 then Reverse else Stopped)
   \<and> (calls \<noteq> [] \<longrightarrow>
        current_direction (foldl (\<lambda>w s. setSpeed m s w) w calls) =
          Some (if 0 <s last calls then Forward
                else if last calls <s 0 then Reverse else Stopped))"
proof -
  have init: "current_direction (snd (MyMotor_new fp rp w0)) = Some Stopped"
    by (simp add: current_direction_def forward_duty_new reverse_duty_new)
  have run: "current_direction (foldl (\<lambda>w s. setSpeed m s w) w calls) =
      Some (if 0 <s last calls then Forward else if last calls <s 0 then Reverse else Stopped)"
    if "calls \<noteq> []"
  proof -
    from that obtain ss s' where "calls = ss @ [s']"
      by (cases calls rule: rev_cases) auto
    then show ?thesis
      by (simp add: current_direction_setSpeed)
  qed
  show ?thesis
    using init run current_direction_setSpeed by blast
qed

theorem direction_by_sign_of_last_call_witness:
  "current_direction booted = Some Stopped
   \<and> current_direction (setSpeed motor 150 booted) = Some Forward
   \<and> [70, 0, - 20 :: cint] \<noteq> []
   \<and> current_direction (foldl (\<lambda>w s. setSpeed motor s w) booted [70, 0, - 20]) = Some Reverse
   \<and> current_direction (foldl (\<lambda>w s. setSpeed motor s w) booted [70, - 20, 0]) = Some Stopped"
  using direction_by_sign_of_last_call [of 4 15 power_on motor 150 booted "[70, 0, - 20]"]
    direction_by_sign_of_last_call [of 4 15 power_on motor 150 booted "[70, - 20, 0]"]
  by (simp add: booted_def word_sless_alt)

section \<open>Construction\<close>

text \<open>
  C7. The constructor initialises timer 0 of unit 0, the timer both channels share, with
  a frequency of 1000 Hz, duty mode 0 (active high), an up counter and both compare
  values at 0, and leaves the duties of the forward and the reverse channel at 0,
  whatever the pins and the state before.
\<close>

theorem MyMotor_new_configures_timer:
  "timer_config (timers (snd (MyMotor_new fp rp w)) (MCPWM_UNIT_0, MCPWM_TIMER_0)) =
     Some \<lparr>frequency = 1000, cmpr_a = 0, cmpr_b = 0,
           duty_mode = MCPWM_DUTY_MODE_0, counter_mode = MCPWM_UP_COUNTER\<rparr>
   \<and> forward_duty (snd (MyMotor_new fp rp w)) = 0
   \<and> reverse_duty (snd (MyMotor_new fp rp w)) = 0"
  by (simp add: forward_duty_new reverse_duty_new)
     (simp add: MyMotor_new_def Let_def mcpwm_init_def mcpwm_gpio_init_def)

theorem MyMotor_new_configures_timer_witness:
  "timer_config (timers booted (MCPWM_UNIT_0, MCPWM_TIMER_0)) =
     Some \<lparr>frequency = 1000, cmpr_a = 0, cmpr_b = 0,
           duty_mode = MCPWM_DUTY_MODE_0, counter_mode = MCPWM_UP_COUNTER\<rparr>
   \<and> forward_duty booted = 0 \<and> reverse_duty booted = 0"
  using MyMotor_new_configures_timer [of 4 15 power_on]
  by (simp add: booted_def)

section \<open>The status line\<close>

text \<open>
  The text a call prints fixes its clamped speed: two calls that print the same text were
  given speeds with the same clamped value, hence the same direction and magnitude.
\<close>

lemma status_line_determines_speed:
  assumes "serial (setSpeed m s w) = serial w @ out"
    and "serial (setSpeed m' s' w') = serial w' @ out"
  shows "max (- 100) (min 100 (sint s)) = max (- 100) (min 100 (sint s'))"
proof -
  define line :: "int \<Rightarrow> string" where
    "line c = (if 0 < c then ''Forward Speed: '' @ printNumber (nat c) @ ''%''
               else if c < 0 then ''Reverse Speed: -'' @ printNumber (nat (- c)) @ ''%''
               else ''Motor Stopped'')" for c
  define c where "c = max (- 100) (min 100 (sint s))"
  define c' where "c' = max (- 100) (min 100 (sint s'))"
  have "out = line c @ CRLF"
    using assms(1) by (simp add: serial_setSpeed Let_def line_def flip: c_def)
  moreover have "out = line c' @ CRLF"
    using assms(2) by (simp add: serial_setSpeed Let_def line_def flip: c'_def)
  ultimately have "line c = line c'"
    by simp
  then show "c = c'"
    by (auto simp add: line_def split: if_splits dest!: printNumber_inj)
qed

text \<open>
  C8. Every call of \<^verbatim>\<open>setSpeed\<close> appends to the serial output exactly one line: a text
  free of line terminators followed by one carriage return and line feed. The line names
  the direction the call leaves the motor in, and for a moving motor it carries the duty
  now commanded, in decimal and followed by a percent sign: \<^verbatim>\<open>Forward Speed: \<close> and the
  forward duty, or \<^verbatim>\<open>Reverse Speed: -\<close> and the reverse duty. For a stopped motor, whose
  duties are both 0, the line is \<^verbatim>\<open>Motor Stopped\<close>.
\<close>

theorem setSpeed_status_line:
  "let w' = setSpeed m s w
   in \<exists>line. serial w' = serial w @ line @ CRLF
        \<and> CHR 0x0D \<notin> set line \<and> CHR 0x0A \<notin> set line
        \<and> (current_direction w' = Some Forward
              \<and> line = ''Forward Speed: '' @ printNumber (nat (forward_duty w')) @ ''%''
           \<or> current_direction w' = Some Reverse
              \<and> line = ''Reverse Speed: -'' @ printNumber (nat (reverse_duty w')) @ ''%''
           \<or> current_direction w' = Some Stopped
              \<and> forward_duty w' = 0 \<and> reverse_duty w' = 0 \<and> line = ''Motor Stopped'')"
proof -
  define c where "c = max (- 100) (min 100 (sint s))"
  consider "0 < c" | "c < 0" | "c = 0" by linarith
  then show ?thesis
  proof cases
    case 1
    then show ?thesis
      unfolding Let_def
      by (intro exI [of _ "''Forward Speed: '' @ printNumber (nat c) @ ''%''"])
         (simp add: serial_setSpeed current_direction_def forward_duty_setSpeed
            reverse_duty_setSpeed printNumber_no_newline flip: c_def)
  next
    case 2
    then show ?thesis
      unfolding Let_def
      by (intro exI [of _ "''Reverse Speed: -'' @ printNumber (nat (- c)) @ ''%''"])
         (simp add: serial_setSpeed current_direction_def forward_duty_setSpeed
            reverse_duty_setSpeed printNumber_no_newline flip: c_def)
  next
    case 3
    then show ?thesis
      unfolding Let_def
      by (intro exI [of _ "''Motor Stopped''"])
         (simp add: serial_setSpeed current_direction_def forward_duty_setSpeed
            reverse_duty_setSpeed flip: c_def)
  qed
qed

theorem setSpeed_status_line_witness:
  "serial (setSpeed motor 37 booted) = ''Forward Speed: 37%'' @ CRLF
   \<and> serial (setSpeed motor (- 37) booted) = ''Reverse Speed: -37%'' @ CRLF
   \<and> serial (setSpeed motor 0 booted) = ''Motor Stopped'' @ CRLF"
proof -
  have digits: "printNumber 37 = ''37''"
    by (simp add: printNumber.simps)
  show ?thesis
    using setSpeed_status_line [of motor 37 booted]
      setSpeed_status_line [of motor "- 37" booted]
      setSpeed_status_line [of motor 0 booted]
    by (simp add: Let_def current_direction_setSpeed forward_duty_setSpeed
        reverse_duty_setSpeed serial_booted word_sless_alt digits)
qed

section \<open>The duties written to the peripheral\<close>

text \<open>
  C9. For every 32-bit speed, those far outside \<open>[-100, 100]\<close> included, a call of
  \<^verbatim>\<open>setSpeed\<close> makes exactly two duty writes, one on each operator of timer 0 of unit 0,
  and both duties lie between 0 and 100.
\<close>

theorem setSpeed_duty_writes_bounded:
  "\<exists>a b. duty_writes (setSpeed m s w) = duty_writes w @
       [(MCPWM_UNIT_0, MCPWM_TIMER_0, MCPWM_OPR_A, a),
        (MCPWM_UNIT_0, MCPWM_TIMER_0, MCPWM_OPR_B, b)]
     \<and> 0 \<le> a \<and> a \<le> 100 \<and> 0 \<le> b \<and> b \<le> 100"
  by (simp add: duty_writes_setSpeed)

theorem setSpeed_duty_writes_bounded_witness:
  "duty_writes (setSpeed motor 2147483647 booted) =
     [(MCPWM_UNIT_0, MCPWM_TIMER_0, MCPWM_OPR_A, 100), (MCPWM_UNIT_0, MCPWM_TIMER_0, MCPWM_OPR_B, 0)]
   \<and> duty_writes (setSpeed motor (- 2147483648) booted) =
     [(MCPWM_UNIT_0, MCPWM_TIMER_0, MCPWM_OPR_A, 0), (MCPWM_UNIT_0, MCPWM_TIMER_0, MCPWM_OPR_B, 100)]"
  using setSpeed_duty_writes_bounded [of motor 2147483647 booted]
    setSpeed_duty_writes_bounded [of motor "- 2147483648" booted]
  by (simp add: duty_writes_setSpeed duty_writes_booted)

section \<open>Independence of the history\<close>

text \<open>
  C10. For every speed there are a forward duty, a reverse duty and a text such that a
  call of \<^verbatim>\<open>setSpeed\<close> with that speed, on any object and from any state, leaves the two
  channels at these duties and appends this text to the serial output: the result depends
  on the argument alone.
\<close>

theorem setSpeed_history_independent:
  "\<exists>fd rd out. \<forall>m w. forward_duty (setSpeed m s w) = fd \<and> reverse_duty (setSpeed m s w) = rd
      \<and> serial (setSpeed m s w) = serial w @ out"
  by (intro exI allI)
     (simp add: forward_duty_setSpeed reverse_duty_setSpeed serial_setSpeed)

theorem setSpeed_history_independent_witness:
  "forward_duty (setSpeed motor 37 (setSpeed motor (- 50) booted)) =
     forward_duty (setSpeed motor 37 (setSpeed motor 80 booted))
   \<and> reverse_duty (setSpeed motor 37 (setSpeed motor (- 50) booted)) =
     reverse_duty (setSpeed motor 37 (setSpeed motor 80 booted))
   \<and> drop (length (serial (setSpeed motor (- 50) booted)))
        (serial (setSpeed motor 37 (setSpeed motor (- 50) booted))) =
     drop (length (serial (setSpeed motor 80 booted)))
        (serial (setSpeed motor 37 (setSpeed motor 80 booted)))"
  using setSpeed_history_independent [of 37] by auto

end
